theory Spec2Isabelle
  imports Main
begin

section \<open>The books API of app/main.py\<close>

text \<open>
  The service is a set of FastAPI route handlers over one table of books, reached through
  an SQLAlchemy session. A handler is modelled as a function from the world before the
  request to its outcome and the world after it. The outcome is either a raised exception
  (\<open>Inl\<close>) or the returned response (\<open>Inr\<close>); the world holds the committed table, the
  numbers of sessions opened and closed so far, and the reading of the server's clock.
  The framework validates the parameters of a request before it calls a handler; the
  application as a whole is the function \<open>app\<close> at the end of the model.
\<close>

subsection \<open>Dates and their JSON rendering\<close>

record date =
  year :: nat
  month :: nat
  day :: nat

fun digits :: "nat \<Rightarrow> string" where
  "digits n =
     (if n < 10 then [''0123456789'' ! n]
      else digits (n div 10) @ [''0123456789'' ! (n mod 10)])"

declare digits.simps [simp del]

definition zfill :: "nat \<Rightarrow> string \<Rightarrow> string" where
  "zfill width s = replicate (width - length s) (CHR ''0'') @ s"

text \<open>\<open>date.isoformat()\<close>, the format \<open>%04d-%02d-%02d\<close>.\<close>

definition isoformat :: "date \<Rightarrow> string" where
  "isoformat d =
     zfill 4 (digits (year d)) @ ''-'' @ zfill 2 (digits (month d)) @ ''-'' @
     zfill 2 (digits (day d))"

subsection \<open>The table\<close>

text \<open>
  Modelled from the spec: the class \<open>Book\<close> of app/models.py, which is not among the
  sources. The handlers use its attributes \<open>id\<close>, \<open>title\<close>, \<open>pages\<close> and
  \<open>created_at\<close>; the spec gives their types and says that the identifier is assigned by
  the server, unique and monotonic. A row is a book whose identifier has been assigned.
\<close>

record Book =
  book_id :: int
  book_title :: string
  book_pages :: int
  book_created_at :: date

text \<open>
  \<open>DATABASE_URL\<close> of app/settings.py and the column types of app/models.py are not among
  the sources, so the engine behind the session, with its driver, is a parameter of the
  model. It says
  \<^item> whether a negative \<open>LIMIT\<close> or \<open>OFFSET\<close> is refused (PostgreSQL, MySQL) or read as
    zero and as no limit (SQLite);
  \<^item> the largest integer taken as the value an identifier is compared with, as an
    offset, as an identifier to store and as a number of pages to store (\<open>None\<close>: any
    integer is taken); an integer \<open>n\<close> is within the bound \<open>m\<close> when \<open>- m - 1 \<le> n \<le> m\<close>,
    so that 0 is within every bound;
  \<^item> the titles the title column takes;
  \<^item> whether an \<open>UPDATE\<close> leaves the row at its place in the order of a listing
    (SQLite) or lists it last from then on (PostgreSQL);
  \<^item> whether a refused \<open>INSERT\<close> has drawn an identifier from the sequence all the same.
\<close>

record dialect =
  refuses_negative :: bool
  parameter_max :: "nat option"
  offset_max :: "nat option"
  id_max :: "nat option"
  pages_max :: "nat option"
  title_ok :: "string \<Rightarrow> bool"
  updates_in_place :: bool
  draws_before_refusal :: bool

definition within :: "nat option \<Rightarrow> int \<Rightarrow> bool" where
  "within bound n = (case bound of None \<Rightarrow> True | Some m \<Rightarrow> - int m - 1 \<le> n \<and> n \<le> int m)"

text \<open>
  The rows are kept in the order in which a query without \<open>ORDER BY\<close> lists them.
  Modelled from the spec: the primary key declared in app/models.py is assigned by the
  server, unique and monotonic; \<open>next_id\<close> is the next value of its sequence.
\<close>

record database =
  rows :: "Book list"
  next_id :: int
  engine :: dialect

record world =
  db :: database
  sessions_opened :: nat
  sessions_closed :: nat
  today :: date

definition wf_db :: "database \<Rightarrow> bool" where
  "wf_db d \<longleftrightarrow>
     distinct (map book_id (rows d)) \<and> list_all (\<lambda>b. book_id b < next_id d) (rows d)"

subsection \<open>Exceptions, JSON values and responses\<close>

text \<open>
  \<open>StatementRefused\<close> stands for whatever the driver or the engine raises for a statement
  or a value it does not take (\<open>OverflowError\<close> from sqlite3, \<open>DataError\<close> from psycopg2).
\<close>

datatype exc = AttributeError | UnmappedInstanceError | StatementRefused

datatype json =
    JNull
  | JInt int
  | JStr string
  | JList "json list"
  | JObj "(string \<times> json) list"

record JSONResponse =
  status_code :: int
  content :: json

text \<open>
  \<open>jsonable_encoder\<close> on a detached \<open>Book\<close>: its loaded attributes, the date as its ISO
  string; on \<open>None\<close>: null. The keys are listed in the order of the attributes above.
\<close>

definition encode_book :: "Book \<Rightarrow> json" where
  "encode_book b =
     JObj [(''id'', JInt (book_id b)), (''title'', JStr (book_title b)),
           (''pages'', JInt (book_pages b)),
           (''created_at'', JStr (isoformat (book_created_at b)))]"

definition jsonable_encoder_book :: "Book option \<Rightarrow> json" where
  "jsonable_encoder_book book =
     JObj [(''book'', (case book of None \<Rightarrow> JNull | Some b \<Rightarrow> encode_book b))]"

definition jsonable_encoder_books :: "Book list \<Rightarrow> json" where
  "jsonable_encoder_books books = JObj [(''books'', JList (map encode_book books))]"

subsection \<open>The session\<close>

definition Session :: "world \<Rightarrow> world" where
  "Session w = w\<lparr>sessions_opened := sessions_opened w + 1\<rparr>"

definition session_close :: "world \<Rightarrow> world" where
  "session_close w = w\<lparr>sessions_closed := sessions_closed w + 1\<rparr>"

text \<open>
  A select by the identifier. The value compared with is a parameter of the statement,
  and the driver raises when it does not take it; otherwise the first row of that
  identifier is returned, or \<open>None\<close>.
\<close>

definition select_by_id :: "database \<Rightarrow> int \<Rightarrow> exc + Book option" where
  "select_by_id d id' =
     (if within (parameter_max (engine d)) id'
      then Inr (find (\<lambda>b. book_id b = id') (rows d))
      else Inl StatementRefused)"

text \<open>\<open>session.query(Book).filter(Book.id == id).first()\<close>\<close>

definition query_filter_first :: "world \<Rightarrow> int \<Rightarrow> exc + Book option" where
  "query_filter_first w id' = select_by_id (db w) id'"

text \<open>\<open>session.query(Book).get(id)\<close>, in a session that has loaded nothing yet.\<close>

definition query_get :: "world \<Rightarrow> int \<Rightarrow> exc + Book option" where
  "query_get w id' = select_by_id (db w) id'"

text \<open>
  \<open>session.query(Book).limit(l).offset(off).all()\<close>. The limit that reaches the engine
  from \<open>get_books\<close> is between 0 and 100.
\<close>

definition query_limit_offset_all :: "world \<Rightarrow> int \<Rightarrow> int \<Rightarrow> exc + Book list" where
  "query_limit_offset_all w l off =
     (if \<not> within (offset_max (engine (db w))) off then Inl StatementRefused
      else if l < 0 \<or> off < 0 then
        (if refuses_negative (engine (db w)) then Inl StatementRefused
         else Inr (let skipped = drop (nat off) (rows (db w))
                   in if l < 0 then skipped else take (nat l) skipped))
      else Inr (take (nat l) (drop (nat off) (rows (db w)))))"

text \<open>
  \<open>session.add(book); session.commit()\<close> for a new book: the insert takes the next
  identifier of the sequence. When the engine refuses one of the values the commit raises
  and no row is stored; the result is then the exception with the world it leaves.
\<close>

definition commit_added :: "world \<Rightarrow> string \<Rightarrow> int \<Rightarrow> date \<Rightarrow> (exc \<times> world) + world" where
  "commit_added w title pages created_at =
     (if title_ok (engine (db w)) title \<and> within (pages_max (engine (db w))) pages \<and>
         within (id_max (engine (db w))) (next_id (db w))
      then Inr (w\<lparr>db := (db w)\<lparr>
             rows := rows (db w) @
               [\<lparr>book_id = next_id (db w), book_title = title, book_pages = pages,
                 book_created_at = created_at\<rparr>],
             next_id := next_id (db w) + 1\<rparr>\<rparr>)
      else Inl (StatementRefused,
             if draws_before_refusal (engine (db w))
             then w\<lparr>db := (db w)\<lparr>next_id := next_id (db w) + 1\<rparr>\<rparr> else w))"

text \<open>
  Assigning an attribute of the fetched object: on \<open>None\<close> Python raises
  \<open>AttributeError\<close>.
\<close>

definition set_title :: "Book option \<Rightarrow> string \<Rightarrow> exc + Book option" where
  "set_title book title =
     (case book of None \<Rightarrow> Inl AttributeError
      | Some b \<Rightarrow> Inr (Some (b\<lparr>book_title := title\<rparr>)))"

definition set_pages :: "Book option \<Rightarrow> int \<Rightarrow> exc + Book option" where
  "set_pages book pages =
     (case book of None \<Rightarrow> Inl AttributeError
      | Some b \<Rightarrow> Inr (Some (b\<lparr>book_pages := pages\<rparr>)))"

text \<open>
  \<open>session.commit()\<close> after the attribute assignments, given the object as it was
  loaded and as it is now. With no object in the session, or with every attribute equal
  to its loaded value, no statement is sent. Otherwise the \<open>UPDATE\<close> sets the attributes
  that differ, and the commit raises when the engine refuses one of their values.
\<close>

definition commit_dirty ::
  "world \<Rightarrow> Book option \<Rightarrow> Book option \<Rightarrow> (exc \<times> world) + world" where
  "commit_dirty w loaded book =
     (case (loaded, book) of
        (Some b, Some b') \<Rightarrow>
          if b' = b then Inr w
          else if (book_title b' = book_title b \<or> title_ok (engine (db w)) (book_title b')) \<and>
                  (book_pages b' = book_pages b \<or>
                   within (pages_max (engine (db w))) (book_pages b'))
          then Inr (w\<lparr>db := (db w)\<lparr>
                 rows :=
                   (if updates_in_place (engine (db w))
                    then map (\<lambda>r. if book_id r = book_id b' then b' else r) (rows (db w))
                    else filter (\<lambda>r. book_id r \<noteq> book_id b') (rows (db w)) @ [b'])\<rparr>\<rparr>)
          else Inl (StatementRefused, w)
      | _ \<Rightarrow> Inr w)"

text \<open>
  \<open>session.delete(book)\<close>: on \<open>None\<close> SQLAlchemy raises \<open>UnmappedInstanceError\<close>.
\<close>

definition session_delete :: "Book option \<Rightarrow> exc + Book" where
  "session_delete book =
     (case book of None \<Rightarrow> Inl UnmappedInstanceError | Some b \<Rightarrow> Inr b)"

text \<open>
  \<open>session.commit()\<close> after \<open>session.delete(book)\<close>: the \<open>DELETE\<close> of the identifier of
  the fetched row, which the engine has just taken in the fetch.
\<close>

definition commit_deleted :: "world \<Rightarrow> Book \<Rightarrow> world" where
  "commit_deleted w b =
     w\<lparr>db := (db w)\<lparr>rows := filter (\<lambda>r. book_id r \<noteq> book_id b) (rows (db w))\<rparr>\<rparr>"

subsection \<open>The handlers\<close>

definition success :: JSONResponse where
  "success =
     \<lparr>status_code = 200,
      content = JObj [(''status_code'', JInt 200), (''message'', JStr ''success'')]\<rparr>"

definition result_response :: "json \<Rightarrow> JSONResponse" where
  "result_response result =
     \<lparr>status_code = 200,
      content = JObj [(''status_code'', JInt 200), (''result'', result)]\<rparr>"

definition root :: json where
  "root = JObj [(''message'', JStr ''Sample books API is online'')]"

definition create_book :: "world \<Rightarrow> string \<Rightarrow> int \<Rightarrow> (exc + JSONResponse) \<times> world" where
  "create_book w title pages =
     (let w1 = Session w
      in case commit_added w1 title pages (today w1) of
           Inl (e, w2) \<Rightarrow> (Inl e, w2)
         | Inr w2 \<Rightarrow>
             (let w3 = session_close w2
              in (Inr success, w3)))"

definition find_book :: "world \<Rightarrow> int \<Rightarrow> (exc + JSONResponse) \<times> world" where
  "find_book w id' =
     (let w1 = Session w
      in case query_filter_first w1 id' of
           Inl e \<Rightarrow> (Inl e, w1)
         | Inr book \<Rightarrow>
             (let w2 = session_close w1;
                  result = jsonable_encoder_book book
              in (Inr (result_response result), w2)))"

definition get_books :: "world \<Rightarrow> int \<Rightarrow> int \<Rightarrow> (exc + JSONResponse) \<times> world" where
  "get_books w page_size page =
     (let page_size = (if page_size > 100 \<or> page_size < 0 then 100 else page_size);
          w1 = Session w
      in case query_limit_offset_all w1 page_size ((page - 1) * page_size) of
           Inl e \<Rightarrow> (Inl e, w1)
         | Inr books \<Rightarrow>
             (let w2 = session_close w1;
                  result = jsonable_encoder_books books
              in (Inr (result_response result), w2)))"

definition update_book ::
  "world \<Rightarrow> int \<Rightarrow> string option \<Rightarrow> int option \<Rightarrow> (exc + JSONResponse) \<times> world" where
  "update_book w id' title pages =
     (let w1 = Session w
      in case query_get w1 id' of
           Inl e \<Rightarrow> (Inl e, w1)
         | Inr book \<Rightarrow>
             (case (case title of None \<Rightarrow> Inr book | Some t \<Rightarrow> set_title book t) of
                Inl e \<Rightarrow> (Inl e, w1)
              | Inr book1 \<Rightarrow>
                  (case (case pages of None \<Rightarrow> Inr book1 | Some p \<Rightarrow> set_pages book1 p) of
                     Inl e \<Rightarrow> (Inl e, w1)
                   | Inr book2 \<Rightarrow>
                       (case commit_dirty w1 book book2 of
                          Inl (e, w2) \<Rightarrow> (Inl e, w2)
                        | Inr w2 \<Rightarrow>
                            (let w3 = session_close w2
                             in (Inr success, w3))))))"

definition delete_book :: "world \<Rightarrow> int \<Rightarrow> (exc + JSONResponse) \<times> world" where
  "delete_book w id' =
     (let w1 = Session w
      in case query_get w1 id' of
           Inl e \<Rightarrow> (Inl e, w1)
         | Inr book \<Rightarrow>
             (case session_delete book of
                Inl e \<Rightarrow> (Inl e, w1)
              | Inr b \<Rightarrow>
                  (let w2 = commit_deleted w1 b;
                       w3 = session_close w2
                   in (Inr success, w3))))"

subsection \<open>Requests and their validation\<close>

text \<open>
  A request as it arrives. A parameter declared \<open>int\<close> arrives as text, which the
  framework parses: \<open>Ill_typed\<close> is a text that is not an integer, \<open>Parsed n\<close> one that
  reads as \<open>n\<close>. A query parameter may be missing (\<open>None\<close>); the identifier of
  \<open>GET /books/{id}\<close> is part of the path and is always there. Every text is a \<open>str\<close>.
\<close>

datatype 'a parsed = Ill_typed | Parsed 'a

datatype request =
    GET_root
  | POST_books "string option" "int parsed option"
  | GET_book "int parsed"
  | GET_books "int parsed option" "int parsed option"
  | PUT_books "int parsed option" "string option" "int parsed option"
  | DELETE_books "int parsed option"

text \<open>The call of a handler with its arguments, once the parameters are validated.\<close>

datatype call =
    Root
  | Create_book string int
  | Find_book int
  | Get_books int int
  | Update_book int "string option" "int option"
  | Delete_book int

text \<open>
  The errors of a parameter, each the place and the name of the parameter: a required
  parameter that is missing, an integer parameter that does not parse.
\<close>

definition required_errors :: "string \<Rightarrow> 'a option \<Rightarrow> (string \<times> string) list" where
  "required_errors name v = (case v of None \<Rightarrow> [(''query'', name)] | Some x \<Rightarrow> [])"

definition int_errors :: "string \<Rightarrow> int parsed option \<Rightarrow> (string \<times> string) list" where
  "int_errors name v = (case v of Some Ill_typed \<Rightarrow> [(''query'', name)] | _ \<Rightarrow> [])"

text \<open>
  The signatures of the handlers: \<open>create_book(title: str, pages: int)\<close>,
  \<open>find_book(id: int)\<close>, \<open>get_books(page_size: int = 10, page: int = 1)\<close>,
  \<open>update_book(id: int, title: Optional[str] = None, pages: Optional[int] = None)\<close>,
  \<open>delete_book(id: int)\<close>. A request with no error becomes the call of its handler,
  a missing optional parameter taking its default (a required parameter has a value
  then, and the defaults written for it in \<open>request_call\<close> are never used).
\<close>

definition int_value :: "int \<Rightarrow> int parsed option \<Rightarrow> int" where
  "int_value d v = (case v of Some (Parsed n) \<Rightarrow> n | _ \<Rightarrow> d)"

definition optional_int :: "int parsed option \<Rightarrow> int option" where
  "optional_int v = (case v of Some (Parsed n) \<Rightarrow> Some n | _ \<Rightarrow> None)"

definition str_value :: "string option \<Rightarrow> string" where
  "str_value v = (case v of Some s \<Rightarrow> s | None \<Rightarrow> [])"

definition request_errors :: "request \<Rightarrow> (string \<times> string) list" where
  "request_errors request =
     (case request of
        GET_root \<Rightarrow> []
      | POST_books title pages \<Rightarrow>
          required_errors ''title'' title @ required_errors ''pages'' pages @
          int_errors ''pages'' pages
      | GET_book id' \<Rightarrow> (case id' of Ill_typed \<Rightarrow> [(''path'', ''id'')] | Parsed i \<Rightarrow> [])
      | GET_books page_size page \<Rightarrow> int_errors ''page_size'' page_size @ int_errors ''page'' page
      | PUT_books id' title pages \<Rightarrow>
          required_errors ''id'' id' @ int_errors ''id'' id' @ int_errors ''pages'' pages
      | DELETE_books id' \<Rightarrow> required_errors ''id'' id' @ int_errors ''id'' id')"

definition request_call :: "request \<Rightarrow> call" where
  "request_call request =
     (case request of
        GET_root \<Rightarrow> Root
      | POST_books title pages \<Rightarrow> Create_book (str_value title) (int_value 0 pages)
      | GET_book id' \<Rightarrow> Find_book (int_value 0 (Some id'))
      | GET_books page_size page \<Rightarrow> Get_books (int_value 10 page_size) (int_value 1 page)
      | PUT_books id' title pages \<Rightarrow> Update_book (int_value 0 id') title (optional_int pages)
      | DELETE_books id' \<Rightarrow> Delete_book (int_value 0 id'))"

definition validate :: "request \<Rightarrow> (string \<times> string) list + call" where
  "validate request =
     (if request_errors request = [] then Inr (request_call request)
      else Inl (request_errors request))"

text \<open>
  The answer of the framework to a request that does not validate: status 422 and a body
  \<open>{detail: [...]}\<close> with one entry for each error. An entry carries the place and the
  name of the parameter under \<open>loc\<close>; its other keys, a message and a type whose wording
  depends on the version of the framework, are not modelled.
\<close>

definition request_validation_exception_handler ::
  "(string \<times> string) list \<Rightarrow> JSONResponse" where
  "request_validation_exception_handler errors =
     \<lparr>status_code = 422,
      content =
        JObj [(''detail'',
               JList (map (\<lambda>(place, name). JObj [(''loc'', JList [JStr place, JStr name])])
                        errors))]\<rparr>"

subsection \<open>The exception handler and the application\<close>

definition get_default_error_response :: "int \<Rightarrow> string \<Rightarrow> JSONResponse" where
  "get_default_error_response code message =
     \<lparr>status_code = code,
      content = JObj [(''status_code'', JInt code), (''message'', JStr message)]\<rparr>"

definition exception_handler :: "request \<Rightarrow> exc \<Rightarrow> JSONResponse" where
  "exception_handler request e = get_default_error_response 500 ''Internal Server Error''"

text \<open>
  The route table: the handler of a call, run on the world. A dictionary returned by a
  handler is sent with status 200.
\<close>

definition handle :: "world \<Rightarrow> call \<Rightarrow> (exc + JSONResponse) \<times> world" where
  "handle w c =
     (case c of
        Root \<Rightarrow> (Inr \<lparr>status_code = 200, content = root\<rparr>, w)
      | Create_book title pages \<Rightarrow> create_book w title pages
      | Find_book id' \<Rightarrow> find_book w id'
      | Get_books page_size page \<Rightarrow> get_books w page_size page
      | Update_book id' title pages \<Rightarrow> update_book w id' title pages
      | Delete_book id' \<Rightarrow> delete_book w id')"

text \<open>
  What the application answers to a request. A request that does not validate is
  answered by the framework, and no handler is called. Otherwise the answer is the
  handler's response, or the one of the handler registered for \<open>Exception\<close> when the
  handler raised.
\<close>

definition app :: "world \<Rightarrow> request \<Rightarrow> JSONResponse \<times> world" where
  "app w request =
     (case validate request of
        Inl errors \<Rightarrow> (request_validation_exception_handler errors, w)
      | Inr c \<Rightarrow>
          (case handle w c of
             (Inl e, w') \<Rightarrow> (exception_handler request e, w')
           | (Inr response, w') \<Rightarrow> (response, w')))"

text \<open>The envelope: \<open>{status_code, message}\<close> or \<open>{status_code, result}\<close>.\<close>

definition is_envelope :: "json \<Rightarrow> bool" where
  "is_envelope j =
     (case j of
        JObj [(k1, JInt n), (k2, v)] \<Rightarrow>
          k1 = ''status_code'' \<and>
          (k2 = ''message'' \<and> (case v of JStr m \<Rightarrow> True | _ \<Rightarrow> False) \<or> k2 = ''result'')
      | _ \<Rightarrow> False)"

subsection \<open>Example states\<close>

text \<open>
  An engine in the manner of SQLite with the sqlite3 driver, which binds integers of 64
  bits, and one that differs from it in three ways, as PostgreSQL does: it refuses a
  negative offset, lists an updated row last and stores identifiers and pages in 32 bits.
\<close>

definition sqlite :: dialect where
  "sqlite =
     \<lparr>refuses_negative = False,
      parameter_max = Some 9223372036854775807,
      offset_max = Some 9223372036854775807,
      id_max = Some 9223372036854775807,
      pages_max = Some 9223372036854775807,
      title_ok = (\<lambda>title. True),
      updates_in_place = True,
      draws_before_refusal = False\<rparr>"

definition strict :: dialect where
  "strict =
     sqlite\<lparr>refuses_negative := True, updates_in_place := False,
            id_max := Some 2147483647, pages_max := Some 2147483647\<rparr>"

definition empty_world :: world where
  "empty_world =
     \<lparr>db = \<lparr>rows = [], next_id = 1, engine = sqlite\<rparr>,
      sessions_opened = 0, sessions_closed = 0,
      today = \<lparr>year = 2024, month = 3, day = 9\<rparr>\<rparr>"

definition three_books :: "Book list" where
  "three_books =
     [\<lparr>book_id = 1, book_title = ''Dune'', book_pages = 412,
       book_created_at = \<lparr>year = 2024, month = 3, day = 1\<rparr>\<rparr>,
      \<lparr>book_id = 2, book_title = ''Emma'', book_pages = 474,
       book_created_at = \<lparr>year = 2024, month = 3, day = 2\<rparr>\<rparr>,
      \<lparr>book_id = 4, book_title = ''Ulysses'', book_pages = 730,
       book_created_at = \<lparr>year = 2024, month = 3, day = 5\<rparr>\<rparr>]"

definition shelf :: world where
  "shelf =
     \<lparr>db = \<lparr>rows = three_books, next_id = 5, engine = sqlite\<rparr>,
      sessions_opened = 7, sessions_closed = 7,
      today = \<lparr>year = 2024, month = 3, day = 9\<rparr>\<rparr>"

definition strict_shelf :: world where
  "strict_shelf =
     \<lparr>db = \<lparr>rows = three_books, next_id = 5, engine = strict\<rparr>,
      sessions_opened = 7, sessions_closed = 7,
      today = \<lparr>year = 2024, month = 3, day = 9\<rparr>\<rparr>"

section \<open>Properties\<close>

subsection \<open>Looking a book up by its identifier\<close>

lemma find_absent: "id' \<notin> book_id ` set bs \<Longrightarrow> find (\<lambda>b. book_id b = id') bs = None"
  by (auto simp: find_None_iff)

lemma find_present:
  "id' \<in> book_id ` set bs \<Longrightarrow> \<exists>b. find (\<lambda>b. book_id b = id') bs = Some b"
  by (induction bs) auto

lemma find_Some_id: "find (\<lambda>b. book_id b = id') bs = Some b \<Longrightarrow> book_id b = id'"
  by (induction bs) (auto split: if_splits)

lemma find_Some_mem: "find P xs = Some x \<Longrightarrow> x \<in> set xs"
  by (induction xs) (auto split: if_splits)

lemma find_after_delete:
  "find (\<lambda>b. book_id b = id') (filter (\<lambda>r. book_id r \<noteq> id') bs) = None"
  by (simp add: find_None_iff)

lemma find_after_update:
  "find (\<lambda>b. book_id b = id') bs = Some b \<Longrightarrow> book_id b' = id' \<Longrightarrow>
   find (\<lambda>b. book_id b = id') (map (\<lambda>r. if book_id r = id' then b' else r) bs) = Some b'"
  by (induction bs) (auto split: if_splits)

lemma find_appended:
  "id' \<notin> book_id ` set bs \<Longrightarrow> book_id b = id' \<Longrightarrow>
   find (\<lambda>b. book_id b = id') (bs @ [b]) = Some b"
  by (induction bs) auto

lemma find_moved:
  "book_id b' = id' \<Longrightarrow>
   find (\<lambda>b. book_id b = id') (filter (\<lambda>r. book_id r \<noteq> id') bs @ [b']) = Some b'"
  by (rule find_appended) auto

lemma ids_after_update:
  "book_id b' = id' \<Longrightarrow>
   map book_id (map (\<lambda>r. if book_id r = id' then b' else r) bs) = map book_id bs"
  by (induction bs) auto

lemma others_after_update:
  "book_id b' = id' \<Longrightarrow>
   filter (\<lambda>r. book_id r \<noteq> id') (map (\<lambda>r. if book_id r = id' then b' else r) bs) =
   filter (\<lambda>r. book_id r \<noteq> id') bs"
  by (induction bs) auto

lemma others_after_move:
  "book_id b' = id' \<Longrightarrow>
   filter (\<lambda>r. book_id r \<noteq> id') (filter (\<lambda>r. book_id r \<noteq> id') bs @ [b']) =
   filter (\<lambda>r. book_id r \<noteq> id') bs"
  by simp

lemma select_absent:
  "id' \<notin> book_id ` set (rows d) \<Longrightarrow>
   select_by_id d id' =
     (if within (parameter_max (engine d)) id' then Inr None else Inl StatementRefused)"
  by (simp add: select_by_id_def find_absent)

lemma select_present:
  "within (parameter_max (engine d)) id' \<Longrightarrow>
   find (\<lambda>b. book_id b = id') (rows d) = Some b \<Longrightarrow> select_by_id d id' = Inr (Some b)"
  by (simp add: select_by_id_def)

lemma select_Some:
  assumes "select_by_id d id' = Inr (Some b)"
  shows "find (\<lambda>b. book_id b = id') (rows d) = Some b"
    and "within (parameter_max (engine d)) id'"
  using assms by (auto simp add: select_by_id_def split: if_splits)

lemma select_cases:
  obtains (refused) "select_by_id d id' = Inl StatementRefused"
    | (missing) "select_by_id d id' = Inr None"
    | (present) b where "find (\<lambda>b. book_id b = id') (rows d) = Some b"
        "select_by_id d id' = Inr (Some b)"
  by (cases "within (parameter_max (engine d)) id'";
      cases "find (\<lambda>b. book_id b = id') (rows d)")
     (simp_all add: select_by_id_def)

lemma wf_db_fresh: "wf_db d \<Longrightarrow> next_id d \<notin> book_id ` set (rows d)"
  by (auto simp: wf_db_def list_all_iff)

lemma within_zero: "within bound 0"
  by (simp add: within_def split: option.splits)

subsection \<open>What each handler does\<close>

lemma db_Session: "db (Session w) = db w"
  by (simp add: Session_def)

lemma today_Session: "today (Session w) = today w"
  by (simp add: Session_def)

lemma query_in_session:
  "query_limit_offset_all (Session w) l off = query_limit_offset_all w l off"
  by (simp only: query_limit_offset_all_def db_Session)

lemma create_book_taken:
  assumes "title_ok (engine (db w)) title" and "within (pages_max (engine (db w))) pages"
    and "within (id_max (engine (db w))) (next_id (db w))"
  shows "create_book w title pages =
     (Inr success,
      session_close ((Session w)\<lparr>db := (db w)\<lparr>
        rows := rows (db w) @
          [\<lparr>book_id = next_id (db w), book_title = title, book_pages = pages,
            book_created_at = today w\<rparr>],
        next_id := next_id (db w) + 1\<rparr>\<rparr>))"
  using assms
  by (simp add: create_book_def commit_added_def Let_def db_Session today_Session)

lemma create_book_refused:
  assumes "\<not> (title_ok (engine (db w)) title \<and> within (pages_max (engine (db w))) pages \<and>
              within (id_max (engine (db w))) (next_id (db w)))"
  shows "create_book w title pages =
     (Inl StatementRefused,
      if draws_before_refusal (engine (db w))
      then (Session w)\<lparr>db := (db w)\<lparr>next_id := next_id (db w) + 1\<rparr>\<rparr> else Session w)"
  using assms
  by (simp add: create_book_def commit_added_def Let_def db_Session today_Session)

lemma find_book_eq:
  "find_book w id' =
     (case select_by_id (db w) id' of
        Inl e \<Rightarrow> (Inl e, Session w)
      | Inr book \<Rightarrow>
          (Inr (result_response (jsonable_encoder_book book)), session_close (Session w)))"
  by (simp add: find_book_def Let_def query_filter_first_def db_Session split: sum.splits)

lemma get_books_eq:
  "get_books w page_size page =
     (let size = (if page_size > 100 \<or> page_size < 0 then 100 else page_size)
      in case query_limit_offset_all w size ((page - 1) * size) of
           Inl e \<Rightarrow> (Inl e, Session w)
         | Inr books \<Rightarrow>
             (Inr (result_response (jsonable_encoder_books books)),
              session_close (Session w)))"
  by (simp add: get_books_def Let_def query_in_session split: sum.splits)

lemma update_refused_eq:
  assumes "select_by_id (db w) id' = Inl e"
  shows "update_book w id' title pages = (Inl e, Session w)"
  using assms by (simp add: update_book_def Let_def query_get_def db_Session)

lemma update_missing_eq:
  assumes "select_by_id (db w) id' = Inr None"
  shows "update_book w id' title pages =
           (if title = None \<and> pages = None then (Inr success, session_close (Session w))
            else (Inl AttributeError, Session w))"
  using assms
  by (cases title; cases pages)
     (simp_all add: update_book_def Let_def query_get_def db_Session set_title_def
        set_pages_def commit_dirty_def)

lemma update_present_eq:
  assumes "select_by_id (db w) id' = Inr (Some b)"
  shows "update_book w id' title pages =
           (case commit_dirty (Session w) (Some b)
                   (Some (b\<lparr>book_title := (case title of None \<Rightarrow> book_title b | Some t \<Rightarrow> t),
                            book_pages := (case pages of None \<Rightarrow> book_pages b | Some p \<Rightarrow> p)\<rparr>)) of
              Inl (e, w2) \<Rightarrow> (Inl e, w2)
            | Inr w2 \<Rightarrow> (Inr success, session_close w2))"
  using assms
  by (cases title; cases pages)
     (simp_all add: update_book_def Let_def query_get_def db_Session set_title_def
        set_pages_def split: sum.splits prod.splits)

lemma delete_refused_eq:
  assumes "select_by_id (db w) id' = Inl e"
  shows "delete_book w id' = (Inl e, Session w)"
  using assms by (simp add: delete_book_def Let_def query_get_def db_Session)

lemma delete_missing_eq:
  assumes "select_by_id (db w) id' = Inr None"
  shows "delete_book w id' = (Inl UnmappedInstanceError, Session w)"
  using assms
  by (simp add: delete_book_def Let_def query_get_def db_Session session_delete_def)

lemma delete_present_eq:
  assumes "select_by_id (db w) id' = Inr (Some b)"
  shows "delete_book w id' = (Inr success, session_close (commit_deleted (Session w) b))"
  using assms
  by (simp add: delete_book_def Let_def query_get_def db_Session session_delete_def)

lemma commit_dirty_outcome:
  "commit_dirty w (Some b) (Some b') = Inl (StatementRefused, w) \<or>
   (\<exists>w2. commit_dirty w (Some b) (Some b') = Inr w2 \<and>
      sessions_opened w2 = sessions_opened w \<and> sessions_closed w2 = sessions_closed w \<and>
      next_id (db w2) = next_id (db w) \<and> engine (db w2) = engine (db w))"
  by (simp add: commit_dirty_def)

subsection \<open>The outcomes of the handlers\<close>

lemma create_book_outcome:
  "fst (create_book w title pages) = Inl StatementRefused \<or>
   fst (create_book w title pages) = Inr success"
  by (cases "title_ok (engine (db w)) title \<and> within (pages_max (engine (db w))) pages \<and>
             within (id_max (engine (db w))) (next_id (db w))")
     (simp_all add: create_book_taken create_book_refused)

lemma find_book_outcome:
  "fst (find_book w id') = Inl StatementRefused \<or>
   (\<exists>result. fst (find_book w id') = Inr (result_response result))"
  by (cases rule: select_cases [of "db w" id']) (auto simp add: find_book_eq)

lemma get_books_outcome:
  "fst (get_books w page_size page) = Inl StatementRefused \<or>
   (\<exists>result. fst (get_books w page_size page) = Inr (result_response result))"
  by (auto simp add: get_books_eq Let_def query_limit_offset_all_def split: sum.splits)

lemma update_book_outcome:
  "fst (update_book w id' title pages) = Inl AttributeError \<or>
   fst (update_book w id' title pages) = Inl StatementRefused \<or>
   fst (update_book w id' title pages) = Inr success"
proof (cases rule: select_cases [of "db w" id'])
  case refused
  then show ?thesis by (simp add: update_refused_eq)
next
  case missing
  then show ?thesis by (simp add: update_missing_eq)
next
  case (present b)
  let ?b' = "b\<lparr>book_title := (case title of None \<Rightarrow> book_title b | Some t \<Rightarrow> t),
               book_pages := (case pages of None \<Rightarrow> book_pages b | Some p \<Rightarrow> p)\<rparr>"
  from commit_dirty_outcome [of "Session w" b ?b'] show ?thesis
    by (auto simp add: update_present_eq [OF present(2)])
qed

lemma delete_book_outcome:
  "fst (delete_book w id') = Inl UnmappedInstanceError \<or>
   fst (delete_book w id') = Inl StatementRefused \<or>
   fst (delete_book w id') = Inr success"
  by (cases rule: select_cases [of "db w" id'])
     (simp_all add: delete_refused_eq delete_missing_eq delete_present_eq)

subsection \<open>From the request to the answer\<close>

lemma app_valid:
  assumes "validate request = Inr c"
  shows "fst (app w request) =
           (case fst (handle w c) of
              Inl e \<Rightarrow> get_default_error_response 500 ''Internal Server Error''
            | Inr response \<Rightarrow> response)"
    and "snd (app w request) = snd (handle w c)"
  using assms
  by (simp_all add: app_def exception_handler_def split: prod.splits sum.splits)

lemma app_invalid:
  assumes "validate request = Inl errors"
  shows "app w request = (request_validation_exception_handler errors, w)"
  using assms by (simp add: app_def)

lemmas validate_simps = validate_def request_errors_def request_call_def
  required_errors_def int_errors_def int_value_def optional_int_def str_value_def

lemma validate_POST_books [simp]:
  "validate (POST_books (Some title) (Some (Parsed pages))) = Inr (Create_book title pages)"
  by (simp add: validate_simps)

lemma validate_GET_book [simp]: "validate (GET_book (Parsed id')) = Inr (Find_book id')"
  by (simp add: validate_simps)

lemma validate_GET_books [simp]:
  "validate (GET_books (map_option Parsed page_size) (map_option Parsed page)) =
     Inr (Get_books (case page_size of None \<Rightarrow> 10 | Some n \<Rightarrow> n)
            (case page of None \<Rightarrow> 1 | Some n \<Rightarrow> n))"
  by (cases page_size; cases page) (simp_all add: validate_simps)

lemma validate_PUT_books [simp]:
  "validate (PUT_books (Some (Parsed id')) title (map_option Parsed pages)) =
     Inr (Update_book id' title pages)"
  by (cases pages) (simp_all add: validate_simps)

lemma validate_DELETE_books [simp]:
  "validate (DELETE_books (Some (Parsed id'))) = Inr (Delete_book id')"
  by (simp add: validate_simps)

lemmas world_simps = Session_def session_close_def commit_deleted_def

lemmas response_simps = success_def result_response_def get_default_error_response_def
  jsonable_encoder_book_def jsonable_encoder_books_def

subsection \<open>The table stays well formed\<close>

text \<open>
  Identifiers are distinct and below the sequence in the empty table, and every request
  keeps them so: \<open>wf_db\<close> holds in every state the service reaches.
\<close>

lemma wf_db_empty: "wf_db (db empty_world)"
  by (simp add: wf_db_def empty_world_def)

lemma wf_db_sessions:
  "wf_db (db (Session w)) = wf_db (db w)" "wf_db (db (session_close w)) = wf_db (db w)"
  by (simp_all add: Session_def session_close_def)

lemma wf_db_drawn: "wf_db d \<Longrightarrow> wf_db (d\<lparr>next_id := next_id d + 1\<rparr>)"
  by (auto simp: wf_db_def list_all_iff)

lemma wf_db_added:
  "wf_db d \<Longrightarrow>
   wf_db (d\<lparr>rows := rows d @
              [\<lparr>book_id = next_id d, book_title = title, book_pages = pages,
                book_created_at = created_at\<rparr>],
            next_id := next_id d + 1\<rparr>)"
  by (auto simp: wf_db_def list_all_iff)

lemma wf_db_updated:
  assumes "wf_db d" and "b \<in> set (rows d)" and "book_id b' = book_id b"
  shows "wf_db (d\<lparr>rows := map (\<lambda>r. if book_id r = book_id b' then b' else r) (rows d)\<rparr>)"
proof -
  let ?rows = "map (\<lambda>r. if book_id r = book_id b' then b' else r) (rows d)"
  have "map book_id ?rows = map book_id (rows d)"
    by (rule ids_after_update) simp
  moreover have "distinct (map book_id (rows d))"
    using assms(1) by (simp add: wf_db_def)
  ultimately have "distinct (map book_id ?rows)"
    by (simp only:)
  moreover have "\<forall>r \<in> set ?rows. book_id r < next_id d"
    using assms by (auto simp: wf_db_def list_all_iff)
  ultimately show ?thesis
    by (simp add: wf_db_def list_all_iff del: map_map)
qed

lemma wf_db_moved:
  assumes "wf_db d" and "b \<in> set (rows d)" and "book_id b' = book_id b"
  shows "wf_db (d\<lparr>rows := filter (\<lambda>r. book_id r \<noteq> book_id b') (rows d) @ [b']\<rparr>)"
  using assms by (auto simp: wf_db_def list_all_iff distinct_map_filter)

lemma wf_db_deleted:
  "wf_db d \<Longrightarrow> wf_db (d\<lparr>rows := filter (\<lambda>r. book_id r \<noteq> id') (rows d)\<rparr>)"
  by (auto simp: wf_db_def list_all_iff distinct_map_filter)

lemma wf_db_commit_dirty:
  assumes "wf_db (db w)" and "b \<in> set (rows (db w))" and "book_id b' = book_id b"
    and "commit_dirty w (Some b) (Some b') = Inr w2"
  shows "wf_db (db w2)"
proof (cases "b' = b")
  case True
  with assms show ?thesis
    by (simp add: commit_dirty_def)
next
  case False
  show ?thesis
  proof (cases "updates_in_place (engine (db w))")
    case True
    with assms(4) False have "db w2 =
        (db w)\<lparr>rows := map (\<lambda>r. if book_id r = book_id b' then b' else r) (rows (db w))\<rparr>"
      by (auto simp add: commit_dirty_def split: if_splits)
    then show ?thesis
      using wf_db_updated [OF assms(1-3)] by simp
  next
    case moved: False
    with assms(4) False have "db w2 =
        (db w)\<lparr>rows := filter (\<lambda>r. book_id r \<noteq> book_id b') (rows (db w)) @ [b']\<rparr>"
      by (auto simp add: commit_dirty_def split: if_splits)
    then show ?thesis
      using wf_db_moved [OF assms(1-3)] by simp
  qed
qed

lemma wf_db_handle:
  assumes "wf_db (db w)"
  shows "wf_db (db (snd (handle w c)))"
proof (cases c)
  case Root
  then show ?thesis using assms by (simp add: handle_def)
next
  case (Create_book title pages)
  show ?thesis
  proof (cases "title_ok (engine (db w)) title \<and> within (pages_max (engine (db w))) pages \<and>
               within (id_max (engine (db w))) (next_id (db w))")
    case True
    then show ?thesis
      using wf_db_added [OF assms, of title pages "today w"]
      by (simp add: Create_book handle_def create_book_taken world_simps)
  next
    case False
    then show ?thesis
      using assms wf_db_drawn [OF assms]
      by (simp add: Create_book handle_def create_book_refused world_simps)
  qed
next
  case (Find_book id')
  then show ?thesis
    using assms by (simp add: handle_def find_book_eq world_simps split: sum.splits)
next
  case (Get_books page_size page)
  then show ?thesis
    using assms
    by (simp add: handle_def get_books_eq Let_def world_simps split: sum.splits)
next
  case (Update_book id' title pages)
  show ?thesis
  proof (cases rule: select_cases [of "db w" id'])
    case refused
    then show ?thesis
      using assms by (simp add: Update_book handle_def update_refused_eq world_simps)
  next
    case missing
    then show ?thesis
      using assms by (simp add: Update_book handle_def update_missing_eq world_simps)
  next
    case (present b)
    let ?b' = "b\<lparr>book_title := (case title of None \<Rightarrow> book_title b | Some t \<Rightarrow> t),
                 book_pages := (case pages of None \<Rightarrow> book_pages b | Some p \<Rightarrow> p)\<rparr>"
    have m: "b \<in> set (rows (db (Session w)))"
      using find_Some_mem [OF present(1)] by (simp add: db_Session)
    have s: "wf_db (db (Session w))"
      using assms by (simp add: wf_db_sessions)
    have i: "book_id ?b' = book_id b"
      by simp
    from commit_dirty_outcome [of "Session w" b ?b'] show ?thesis
    proof
      assume "commit_dirty (Session w) (Some b) (Some ?b') = Inl (StatementRefused, Session w)"
      then show ?thesis
        using s by (simp add: Update_book handle_def update_present_eq [OF present(2)])
    next
      assume "\<exists>w2. commit_dirty (Session w) (Some b) (Some ?b') = Inr w2 \<and>
        sessions_opened w2 = sessions_opened (Session w) \<and>
        sessions_closed w2 = sessions_closed (Session w) \<and>
        next_id (db w2) = next_id (db (Session w)) \<and>
        engine (db w2) = engine (db (Session w))"
      then obtain w2 where w2: "commit_dirty (Session w) (Some b) (Some ?b') = Inr w2"
        by blast
      from wf_db_commit_dirty [OF s m i w2] show ?thesis
        by (simp add: Update_book handle_def update_present_eq [OF present(2)] w2
              wf_db_sessions)
    qed
  qed
next
  case (Delete_book id')
  show ?thesis
  proof (cases rule: select_cases [of "db w" id'])
    case refused
    then show ?thesis
      using assms by (simp add: Delete_book handle_def delete_refused_eq world_simps)
  next
    case missing
    then show ?thesis
      using assms by (simp add: Delete_book handle_def delete_missing_eq world_simps)
  next
    case (present b)
    then show ?thesis
      using wf_db_deleted [OF assms, of "book_id b"]
      by (simp add: Delete_book handle_def delete_present_eq world_simps)
  qed
qed

lemma wf_db_app:
  assumes "wf_db (db w)"
  shows "wf_db (db (snd (app w request)))"
proof (cases "validate request")
  case (Inl errors)
  then show ?thesis
    using assms by (simp add: app_invalid)
next
  case (Inr c)
  then show ?thesis
    using wf_db_handle [OF assms, of c] by (simp add: app_valid)
qed

subsection \<open>The identifiers in the table are ones the driver takes\<close>

text \<open>
  Every request leaves the engine as it is, and the only identifier it can add to the
  table is the next one of the sequence, when the engine stores it. So, on an engine
  whose driver takes as a parameter every identifier that the engine stores, the
  identifier of every row is one the driver takes, in every state the service reaches.
\<close>

lemma commit_dirty_ids:
  assumes "commit_dirty w (Some b) (Some b') = Inr w2"
  shows "book_id ` set (rows (db w2)) \<subseteq> book_id ` set (rows (db w)) \<union> {book_id b'}"
    and "engine (db w2) = engine (db w)"
  using assms by (auto simp add: commit_dirty_def split: if_splits)

lemma engine_handle: "engine (db (snd (handle w c))) = engine (db w)"
proof (cases c)
  case Root
  then show ?thesis by (simp add: handle_def)
next
  case (Create_book title pages)
  then show ?thesis
    by (cases "title_ok (engine (db w)) title \<and> within (pages_max (engine (db w))) pages \<and>
               within (id_max (engine (db w))) (next_id (db w))")
       (simp_all add: handle_def create_book_taken create_book_refused world_simps)
next
  case (Find_book id')
  then show ?thesis
    by (simp add: handle_def find_book_eq world_simps split: sum.splits)
next
  case (Get_books page_size page)
  then show ?thesis
    by (simp add: handle_def get_books_eq Let_def world_simps split: sum.splits)
next
  case (Update_book id' title pages)
  show ?thesis
  proof (cases rule: select_cases [of "db w" id'])
    case refused
    then show ?thesis
      by (simp add: Update_book handle_def update_refused_eq world_simps)
  next
    case missing
    then show ?thesis
      by (simp add: Update_book handle_def update_missing_eq world_simps)
  next
    case (present b)
    let ?b' = "b\<lparr>book_title := (case title of None \<Rightarrow> book_title b | Some t \<Rightarrow> t),
                 book_pages := (case pages of None \<Rightarrow> book_pages b | Some p \<Rightarrow> p)\<rparr>"
    from commit_dirty_outcome [of "Session w" b ?b'] show ?thesis
      by (auto simp add: Update_book handle_def update_present_eq [OF present(2)]
            world_simps)
  qed
next
  case (Delete_book id')
  then show ?thesis
    by (cases rule: select_cases [of "db w" id'])
       (simp_all add: handle_def delete_refused_eq delete_missing_eq delete_present_eq
          world_simps)
qed

lemma ids_handle:
  "book_id ` set (rows (db (snd (handle w c)))) \<subseteq>
     book_id ` set (rows (db w)) \<union>
     (if within (id_max (engine (db w))) (next_id (db w)) then {next_id (db w)} else {})"
proof (cases c)
  case Root
  then show ?thesis by (auto simp add: handle_def)
next
  case (Create_book title pages)
  then show ?thesis
    by (cases "title_ok (engine (db w)) title \<and> within (pages_max (engine (db w))) pages \<and>
               within (id_max (engine (db w))) (next_id (db w))")
       (auto simp add: handle_def create_book_taken create_book_refused world_simps)
next
  case (Find_book id')
  then show ?thesis
    by (auto simp add: handle_def find_book_eq world_simps split: sum.splits)
next
  case (Get_books page_size page)
  then show ?thesis
    by (auto simp add: handle_def get_books_eq Let_def world_simps split: sum.splits)
next
  case (Update_book id' title pages)
  show ?thesis
  proof (cases rule: select_cases [of "db w" id'])
    case refused
    then show ?thesis
      by (auto simp add: Update_book handle_def update_refused_eq world_simps)
  next
    case missing
    then show ?thesis
      by (auto simp add: Update_book handle_def update_missing_eq world_simps)
  next
    case (present b)
    let ?b' = "b\<lparr>book_title := (case title of None \<Rightarrow> book_title b | Some t \<Rightarrow> t),
                 book_pages := (case pages of None \<Rightarrow> book_pages b | Some p \<Rightarrow> p)\<rparr>"
    have m: "book_id ?b' \<in> book_id ` set (rows (db w))"
      using find_Some_mem [OF present(1)] by auto
    from commit_dirty_outcome [of "Session w" b ?b'] show ?thesis
    proof
      assume "commit_dirty (Session w) (Some b) (Some ?b') = Inl (StatementRefused, Session w)"
      then show ?thesis
        by (auto simp add: Update_book handle_def update_present_eq [OF present(2)]
              world_simps)
    next
      assume "\<exists>w2. commit_dirty (Session w) (Some b) (Some ?b') = Inr w2 \<and>
        sessions_opened w2 = sessions_opened (Session w) \<and>
        sessions_closed w2 = sessions_closed (Session w) \<and>
        next_id (db w2) = next_id (db (Session w)) \<and>
        engine (db w2) = engine (db (Session w))"
      then obtain w2 where w2: "commit_dirty (Session w) (Some b) (Some ?b') = Inr w2"
        by blast
      from commit_dirty_ids(1) [OF w2] m
      have "book_id ` set (rows (db w2)) \<subseteq> book_id ` set (rows (db w))"
        by (auto simp add: db_Session)
      moreover have "snd (handle w c) = session_close w2"
        by (simp add: Update_book handle_def update_present_eq [OF present(2)] w2)
      ultimately show ?thesis
        by (auto simp add: session_close_def)
    qed
  qed
next
  case (Delete_book id')
  then show ?thesis
    by (cases rule: select_cases [of "db w" id'])
       (auto simp add: handle_def delete_refused_eq delete_missing_eq delete_present_eq
          world_simps)
qed

lemma stored_ids_app:
  assumes "\<And>n. within (id_max (engine (db w))) n \<Longrightarrow> within (parameter_max (engine (db w))) n"
    and "\<And>b. b \<in> set (rows (db w)) \<Longrightarrow> within (parameter_max (engine (db w))) (book_id b)"
    and "b \<in> set (rows (db (snd (app w request))))"
  shows "within (parameter_max (engine (db (snd (app w request))))) (book_id b)"
proof (cases "validate request")
  case (Inl errors)
  then show ?thesis
    using assms(2,3) by (simp add: app_invalid)
next
  case (Inr c)
  then have w': "snd (app w request) = snd (handle w c)"
    by (simp add: app_valid)
  have "book_id b \<in> book_id ` set (rows (db (snd (handle w c))))"
    using assms(3) by (simp add: w')
  with ids_handle [of w c]
  have "book_id b \<in> book_id ` set (rows (db w)) \<or>
        (within (id_max (engine (db w))) (next_id (db w)) \<and> book_id b = next_id (db w))"
    by (auto split: if_splits)
  then have "within (parameter_max (engine (db w))) (book_id b)"
    using assms(1,2) by auto
  then show ?thesis
    by (simp add: w' engine_handle)
qed

subsection \<open>Update of a book that does not exist\<close>

text \<open>
  C1, as the code has it: when no row has the identifier, \<open>PUT /books\<close> answers with the
  500 body as soon as a title or a number of pages is supplied, since the first
  assignment to an attribute of \<open>None\<close> raises, and also when the driver does not take
  the identifier, since the fetch raises then. When neither field is supplied and the
  fetch runs, no assignment is attempted and the answer is the success envelope. The
  table is unchanged in every case.
\<close>

theorem update_book_absent:
  assumes "id' \<notin> book_id ` set (rows (db w))"
  shows "fst (app w (PUT_books (Some (Parsed id')) title (map_option Parsed pages))) =
           (if within (parameter_max (engine (db w))) id' \<and> title = None \<and> pages = None
            then \<lparr>status_code = 200,
                  content = JObj [(''status_code'', JInt 200),
                                  (''message'', JStr ''success'')]\<rparr>
            else \<lparr>status_code = 500,
                  content = JObj [(''status_code'', JInt 500),
                                  (''message'', JStr ''Internal Server Error'')]\<rparr>) \<and>
         db (snd (app w (PUT_books (Some (Parsed id')) title (map_option Parsed pages)))) =
           db w"
proof (cases "within (parameter_max (engine (db w))) id'")
  case True
  then have "select_by_id (db w) id' = Inr None"
    by (simp add: select_absent [OF assms])
  then show ?thesis
    using True
    by (simp add: app_valid handle_def update_missing_eq world_simps response_simps)
next
  case False
  then have "select_by_id (db w) id' = Inl StatementRefused"
    by (simp add: select_absent [OF assms])
  then show ?thesis
    using False
    by (simp add: app_valid handle_def update_refused_eq world_simps response_simps)
qed

theorem update_book_absent_witness:
  "3 \<notin> book_id ` set (rows (db shelf)) \<and>
   fst (app shelf (PUT_books (Some (Parsed 3)) (Some ''Dune'') None)) =
     \<lparr>status_code = 500,
      content = JObj [(''status_code'', JInt 500),
                      (''message'', JStr ''Internal Server Error'')]\<rparr> \<and>
   db (snd (app shelf (PUT_books (Some (Parsed 3)) (Some ''Dune'') None))) = db shelf \<and>
   fst (app shelf (PUT_books (Some (Parsed 9223372036854775808)) None None)) =
     \<lparr>status_code = 500,
      content = JObj [(''status_code'', JInt 500),
                      (''message'', JStr ''Internal Server Error'')]\<rparr>"
proof -
  have h: "3 \<notin> book_id ` set (rows (db shelf))"
    and h': "9223372036854775808 \<notin> book_id ` set (rows (db shelf))"
    by (simp_all add: shelf_def three_books_def)
  have p: "\<not> within (parameter_max (engine (db shelf))) 9223372036854775808"
    by (simp add: shelf_def sqlite_def within_def)
  show ?thesis
    using h p update_book_absent [OF h, of "Some ''Dune''" None]
      update_book_absent [OF h', of None None]
    by simp
qed

text \<open>
  The claim as it was stated fails when neither field is supplied: identifier 1 is not in
  the empty table, and the answer is the success envelope.
\<close>

theorem update_book_absent_counterexample:
  "1 \<notin> book_id ` set (rows (db empty_world)) \<and>
   fst (app empty_world (PUT_books (Some (Parsed 1)) None None)) =
     \<lparr>status_code = 200,
      content = JObj [(''status_code'', JInt 200), (''message'', JStr ''success'')]\<rparr>"
  by (simp add: empty_world_def sqlite_def app_def validate_simps handle_def
        update_book_def Let_def query_get_def select_by_id_def within_def commit_dirty_def
        Session_def session_close_def success_def)

subsection \<open>The page size of a listing\<close>

text \<open>
  C2: \<open>GET /books\<close> uses a page size between 0 and 100 as it is and replaces any other by
  100, so that a negative page size lists up to 100 rows; the statement is sent with
  this limit and with the offset \<open>(page - 1) * page_size\<close>, computed with the page size
  after clamping. When the engine takes the offset, the answer lists the rows from the
  offset on, up to the limit (from the first row on when a negative offset is read as
  zero). When it does not (an offset beyond its bound, or a negative one where that is
  refused), the statement raises and the answer is the 500 body.
\<close>

theorem get_books_page_size:
  fixes w :: world and page_size :: int and page :: int
  defines "response \<equiv> fst (app w (GET_books (Some (Parsed page_size)) (Some (Parsed page))))"
  defines "listing \<equiv> \<lambda>size.
     if within (offset_max (engine (db w))) ((page - 1) * size) \<and>
        (0 \<le> (page - 1) * size \<or> \<not> refuses_negative (engine (db w)))
     then \<lparr>status_code = 200,
           content = JObj [(''status_code'', JInt 200),
             (''result'', JObj [(''books'',
                JList (map encode_book
                  (take (nat size) (drop (nat ((page - 1) * size)) (rows (db w))))))])]\<rparr>
     else \<lparr>status_code = 500,
           content = JObj [(''status_code'', JInt 500),
                           (''message'', JStr ''Internal Server Error'')]\<rparr>"
  shows "(0 \<le> page_size \<and> page_size \<le> 100 \<longrightarrow> response = listing page_size) \<and>
         (page_size > 100 \<or> page_size < 0 \<longrightarrow> response = listing 100)"
proof -
  have run: "fst (app w (GET_books (Some (Parsed page_size)) (Some (Parsed page)))) =
      (case query_limit_offset_all w size ((page - 1) * size) of
         Inl e \<Rightarrow> get_default_error_response 500 ''Internal Server Error''
       | Inr books \<Rightarrow> result_response (jsonable_encoder_books books))"
    if "size = (if page_size > 100 \<or> page_size < 0 then 100 else page_size)" for size
    using validate_GET_books [of "Some page_size" "Some page"]
    by (simp add: app_valid handle_def get_books_eq that split: sum.splits)
  have query: "(case query_limit_offset_all w size ((page - 1) * size) of
         Inl e \<Rightarrow> get_default_error_response 500 ''Internal Server Error''
       | Inr books \<Rightarrow> result_response (jsonable_encoder_books books)) = listing size"
    if "0 \<le> size" for size
    using that
    by (simp add: listing_def query_limit_offset_all_def response_simps)
  have "response = listing page_size" if "0 \<le> page_size \<and> page_size \<le> 100"
    using that run [of page_size] query [of page_size] by (simp add: response_def)
  moreover have "response = listing 100" if "page_size > 100 \<or> page_size < 0"
    using that run [of 100] query [of 100] by (auto simp add: response_def)
  ultimately show ?thesis
    by blast
qed

theorem get_books_page_size_witness:
  "fst (app shelf (GET_books (Some (Parsed 2)) (Some (Parsed 2)))) =
     \<lparr>status_code = 200,
      content = JObj [(''status_code'', JInt 200),
        (''result'', JObj [(''books'', JList
           [JObj [(''id'', JInt 4), (''title'', JStr ''Ulysses''), (''pages'', JInt 730),
                  (''created_at'', JStr ''2024-03-05'')]])])]\<rparr> \<and>
   fst (app shelf (GET_books (Some (Parsed (-5))) (Some (Parsed 1)))) =
     \<lparr>status_code = 200,
      content = JObj [(''status_code'', JInt 200),
        (''result'', JObj [(''books'', JList
           [JObj [(''id'', JInt 1), (''title'', JStr ''Dune''), (''pages'', JInt 412),
                  (''created_at'', JStr ''2024-03-01'')],
            JObj [(''id'', JInt 2), (''title'', JStr ''Emma''), (''pages'', JInt 474),
                  (''created_at'', JStr ''2024-03-02'')],
            JObj [(''id'', JInt 4), (''title'', JStr ''Ulysses''), (''pages'', JInt 730),
                  (''created_at'', JStr ''2024-03-05'')]])])]\<rparr> \<and>
   fst (app strict_shelf (GET_books (Some (Parsed 2)) (Some (Parsed 0)))) =
     \<lparr>status_code = 500,
      content = JObj [(''status_code'', JInt 500),
                      (''message'', JStr ''Internal Server Error'')]\<rparr> \<and>
   fst (app shelf (GET_books (Some (Parsed 101)) (Some (Parsed 92233720368547758080)))) =
     \<lparr>status_code = 500,
      content = JObj [(''status_code'', JInt 500),
                      (''message'', JStr ''Internal Server Error'')]\<rparr>"
  using get_books_page_size [of 2 shelf 2] get_books_page_size [of "-5" shelf 1]
    get_books_page_size [of 2 strict_shelf 0]
    get_books_page_size [of 101 shelf 92233720368547758080]
  by (simp add: shelf_def strict_shelf_def three_books_def sqlite_def strict_def within_def
        encode_book_def isoformat_def zfill_def digits.simps)

subsection \<open>Looking up a book that does not exist\<close>

text \<open>
  C3, as the code has it: when no row has the identifier and the driver takes it as the
  value to compare with, \<open>GET /books/{id}\<close> answers with status 200 and the result
  \<open>{book: null}\<close>: a success envelope, not an error of its own. When the driver does not
  take the identifier, the query raises and the answer is the 500 body.
\<close>

theorem find_book_absent:
  assumes "id' \<notin> book_id ` set (rows (db w))"
  shows "fst (app w (GET_book (Parsed id'))) =
           (if within (parameter_max (engine (db w))) id'
            then \<lparr>status_code = 200,
                  content = JObj [(''status_code'', JInt 200),
                                  (''result'', JObj [(''book'', JNull)])]\<rparr>
            else \<lparr>status_code = 500,
                  content = JObj [(''status_code'', JInt 500),
                                  (''message'', JStr ''Internal Server Error'')]\<rparr>)"
  by (simp add: app_valid handle_def find_book_eq select_absent [OF assms] response_simps)

theorem find_book_absent_witness:
  "3 \<notin> book_id ` set (rows (db shelf)) \<and>
   fst (app shelf (GET_book (Parsed 3))) =
     \<lparr>status_code = 200,
      content = JObj [(''status_code'', JInt 200),
                      (''result'', JObj [(''book'', JNull)])]\<rparr>"
proof -
  have h: "3 \<notin> book_id ` set (rows (db shelf))"
    by (simp add: shelf_def three_books_def)
  have p: "within (parameter_max (engine (db shelf))) 3"
    by (simp add: shelf_def sqlite_def within_def)
  show ?thesis
    using h p find_book_absent [OF h] by simp
qed

text \<open>
  The claim as it was stated fails for an identifier beyond 64 bits on an engine whose
  driver binds integers of 64 bits: no row has the identifier \<open>2^63\<close>, and the answer
  is the 500 body.
\<close>

theorem find_book_absent_counterexample:
  "9223372036854775808 \<notin> book_id ` set (rows (db shelf)) \<and>
   fst (app shelf (GET_book (Parsed 9223372036854775808))) =
     \<lparr>status_code = 500,
      content = JObj [(''status_code'', JInt 500),
                      (''message'', JStr ''Internal Server Error'')]\<rparr>"
  by (simp add: shelf_def three_books_def sqlite_def app_def validate_simps handle_def
        find_book_def Let_def query_filter_first_def select_by_id_def within_def
        Session_def exception_handler_def get_default_error_response_def)

subsection \<open>Update of an existing book\<close>

text \<open>
  C4: when the book \<open>b\<close> is the one fetched for the identifier, \<open>PUT /books\<close> changes
  nothing but the supplied fields of that book. With \<open>b'\<close> the book \<open>b\<close> with the supplied
  title and the supplied number of pages, whose identifier, creation date and fields not
  supplied are those of \<open>b\<close>: the rows of every other identifier are the same after the
  request as before, in the same order; when the engine takes the values that change,
  the answer is the success envelope and the book fetched for the identifier afterwards
  is \<open>b'\<close>; when it refuses one of them, the commit raises, the answer is the 500 body
  and the table is as it was.
\<close>

theorem update_book_frame:
  fixes title :: "string option" and pages :: "int option"
  assumes "query_get w id' = Inr (Some b)"
  defines "b' \<equiv> b\<lparr>book_title := (case title of None \<Rightarrow> book_title b | Some t \<Rightarrow> t),
                   book_pages := (case pages of None \<Rightarrow> book_pages b | Some p \<Rightarrow> p)\<rparr>"
  defines "taken \<equiv>
     (book_title b' = book_title b \<or> title_ok (engine (db w)) (book_title b')) \<and>
     (book_pages b' = book_pages b \<or> within (pages_max (engine (db w))) (book_pages b'))"
  defines "response \<equiv> fst (app w (PUT_books (Some (Parsed id')) title (map_option Parsed pages)))"
  defines "w' \<equiv> snd (app w (PUT_books (Some (Parsed id')) title (map_option Parsed pages)))"
  shows "filter (\<lambda>r. book_id r \<noteq> id') (rows (db w')) =
           filter (\<lambda>r. book_id r \<noteq> id') (rows (db w)) \<and>
         next_id (db w') = next_id (db w) \<and>
         book_id b' = book_id b \<and> book_created_at b' = book_created_at b \<and>
         (title = None \<longrightarrow> book_title b' = book_title b) \<and>
         (pages = None \<longrightarrow> book_pages b' = book_pages b) \<and>
         (taken \<longrightarrow>
            response =
              \<lparr>status_code = 200,
               content = JObj [(''status_code'', JInt 200),
                               (''message'', JStr ''success'')]\<rparr> \<and>
            query_get w' id' = Inr (Some b')) \<and>
         (\<not> taken \<longrightarrow>
            response =
              \<lparr>status_code = 500,
               content = JObj [(''status_code'', JInt 500),
                               (''message'', JStr ''Internal Server Error'')]\<rparr> \<and>
            rows (db w') = rows (db w))"
proof -
  have s: "select_by_id (db w) id' = Inr (Some b)"
    using assms(1) by (simp add: query_get_def)
  have f: "find (\<lambda>b. book_id b = id') (rows (db w)) = Some b"
    and p: "within (parameter_max (engine (db w))) id'"
    by (rule select_Some [OF s])+
  have i: "book_id b' = id'"
    by (simp add: b'_def find_Some_id [OF f])
  have run: "app w (PUT_books (Some (Parsed id')) title (map_option Parsed pages)) =
      (case commit_dirty (Session w) (Some b) (Some b') of
         Inl (e, w2) \<Rightarrow> (get_default_error_response 500 ''Internal Server Error'', w2)
       | Inr w2 \<Rightarrow> (success, session_close w2))"
    by (simp add: app_def handle_def exception_handler_def update_present_eq [OF s] b'_def
          split: sum.splits prod.splits)
  have facts: "book_id b' = book_id b \<and> book_created_at b' = book_created_at b \<and>
         (title = None \<longrightarrow> book_title b' = book_title b) \<and>
         (pages = None \<longrightarrow> book_pages b' = book_pages b)"
    by (simp add: b'_def)
  show ?thesis
  proof (cases "b' = b")
    case True
    then have "commit_dirty (Session w) (Some b) (Some b') = Inr (Session w)"
      by (simp add: commit_dirty_def)
    then have "response = success" and "w' = session_close (Session w)"
      by (simp_all add: response_def w'_def run)
    moreover have "taken"
      using True by (simp add: taken_def)
    moreover have "query_get (session_close (Session w)) id' = Inr (Some b')"
      using s True by (simp add: query_get_def world_simps)
    ultimately show ?thesis
      using facts by (simp add: success_def world_simps)
  next
    case changed: False
    show ?thesis
    proof (cases taken)
      case True
      let ?rows = "if updates_in_place (engine (db w))
                   then map (\<lambda>r. if book_id r = id' then b' else r) (rows (db w))
                   else filter (\<lambda>r. book_id r \<noteq> id') (rows (db w)) @ [b']"
      have "commit_dirty (Session w) (Some b) (Some b') =
              Inr ((Session w)\<lparr>db := (db w)\<lparr>rows := ?rows\<rparr>\<rparr>)"
        using changed True by (simp add: commit_dirty_def taken_def db_Session i)
      then have r: "response = success"
        and w': "w' = session_close ((Session w)\<lparr>db := (db w)\<lparr>rows := ?rows\<rparr>\<rparr>)"
        by (simp_all add: response_def w'_def run)
      have rows: "rows (db w') = ?rows"
        by (simp add: w' world_simps)
      have others: "filter (\<lambda>r. book_id r \<noteq> id') (rows (db w')) =
          filter (\<lambda>r. book_id r \<noteq> id') (rows (db w))"
        using others_after_update [OF i, of "rows (db w)"]
          others_after_move [OF i, of "rows (db w)"]
        by (simp add: rows)
      have "find (\<lambda>b. book_id b = id') (rows (db w')) = Some b'"
        using find_after_update [OF f i] find_moved [OF i, of "rows (db w)"]
        by (simp add: rows)
      moreover have "engine (db w') = engine (db w)"
        by (simp add: w' world_simps)
      ultimately have "query_get w' id' = Inr (Some b')"
        using p by (simp add: query_get_def select_present)
      moreover have "next_id (db w') = next_id (db w)"
        by (simp add: w' world_simps)
      ultimately show ?thesis
        using True r others facts by (simp add: success_def)
    next
      case False
      then have "commit_dirty (Session w) (Some b) (Some b') = Inl (StatementRefused, Session w)"
        using changed by (simp add: commit_dirty_def taken_def db_Session)
      then have "response = get_default_error_response 500 ''Internal Server Error''"
        and "w' = Session w"
        by (simp_all add: response_def w'_def run)
      then show ?thesis
        using False facts by (simp add: get_default_error_response_def world_simps)
    qed
  qed
qed

theorem update_book_frame_witness:
  "query_get shelf 2 =
     Inr (Some \<lparr>book_id = 2, book_title = ''Emma'', book_pages = 474,
                book_created_at = \<lparr>year = 2024, month = 3, day = 2\<rparr>\<rparr>) \<and>
   fst (app shelf (PUT_books (Some (Parsed 2)) (Some ''Persuasion'') None)) =
     \<lparr>status_code = 200,
      content = JObj [(''status_code'', JInt 200), (''message'', JStr ''success'')]\<rparr> \<and>
   query_get (snd (app shelf (PUT_books (Some (Parsed 2)) (Some ''Persuasion'') None))) 2 =
     Inr (Some \<lparr>book_id = 2, book_title = ''Persuasion'', book_pages = 474,
                book_created_at = \<lparr>year = 2024, month = 3, day = 2\<rparr>\<rparr>) \<and>
   fst (app shelf (PUT_books (Some (Parsed 2)) None (Some (Parsed 9223372036854775808)))) =
     \<lparr>status_code = 500,
      content = JObj [(''status_code'', JInt 500),
                      (''message'', JStr ''Internal Server Error'')]\<rparr> \<and>
   rows (db (snd (app shelf
     (PUT_books (Some (Parsed 2)) None (Some (Parsed 9223372036854775808)))))) =
     rows (db shelf)"
proof -
  have h: "query_get shelf 2 =
     Inr (Some \<lparr>book_id = 2, book_title = ''Emma'', book_pages = 474,
                book_created_at = \<lparr>year = 2024, month = 3, day = 2\<rparr>\<rparr>)"
    by (simp add: query_get_def select_by_id_def shelf_def three_books_def sqlite_def
          within_def)
  have e: "engine (db shelf) = sqlite"
    by (simp add: shelf_def)
  show ?thesis
    using h update_book_frame [OF h, of "Some ''Persuasion''" None]
      update_book_frame [OF h, of None "Some 9223372036854775808"]
    by (simp add: e sqlite_def within_def)
qed

subsection \<open>Creating a book\<close>

text \<open>
  C5, as the code has it: for every title and every number of pages that the engine
  takes, while the sequence is within the identifiers it takes, \<open>POST /books\<close> answers
  with the success envelope and adds one row to the table, with the title and pages
  given, the next identifier of the sequence, which no row of the table has, and the
  date of the server's clock; \<open>GET /books/{id}\<close> for that identifier, which the driver
  takes as any identifier the engine has stored, then returns this book. When the engine
  refuses a value, the commit raises: the answer is the 500 body and the table has the
  rows it had.
\<close>

theorem create_book_persists:
  fixes title :: string and pages :: int
  assumes "wf_db (db w)"
  defines "taken \<equiv>
     title_ok (engine (db w)) title \<and> within (pages_max (engine (db w))) pages \<and>
     within (id_max (engine (db w))) (next_id (db w))"
  defines "response \<equiv> fst (app w (POST_books (Some title) (Some (Parsed pages))))"
  defines "w' \<equiv> snd (app w (POST_books (Some title) (Some (Parsed pages))))"
  shows "(taken \<longrightarrow>
           response =
             \<lparr>status_code = 200,
              content = JObj [(''status_code'', JInt 200),
                              (''message'', JStr ''success'')]\<rparr> \<and>
           next_id (db w) \<notin> book_id ` set (rows (db w)) \<and>
           rows (db w') = rows (db w) @
             [\<lparr>book_id = next_id (db w), book_title = title, book_pages = pages,
               book_created_at = today w\<rparr>] \<and>
           (within (parameter_max (engine (db w))) (next_id (db w)) \<longrightarrow>
              fst (app w' (GET_book (Parsed (next_id (db w))))) =
                \<lparr>status_code = 200,
                 content = JObj [(''status_code'', JInt 200),
                   (''result'', JObj [(''book'',
                      JObj [(''id'', JInt (next_id (db w))), (''title'', JStr title),
                            (''pages'', JInt pages),
                            (''created_at'', JStr (isoformat (today w)))])])]\<rparr>)) \<and>
         (\<not> taken \<longrightarrow>
           response =
             \<lparr>status_code = 500,
              content = JObj [(''status_code'', JInt 500),
                              (''message'', JStr ''Internal Server Error'')]\<rparr> \<and>
           rows (db w') = rows (db w))"
proof (cases taken)
  case True
  let ?book = "\<lparr>book_id = next_id (db w), book_title = title, book_pages = pages,
                book_created_at = today w\<rparr>"
  have fresh: "next_id (db w) \<notin> book_id ` set (rows (db w))"
    by (rule wf_db_fresh [OF assms(1)])
  have run: "create_book w title pages =
     (Inr success,
      session_close ((Session w)\<lparr>db := (db w)\<lparr>
        rows := rows (db w) @ [?book], next_id := next_id (db w) + 1\<rparr>\<rparr>))"
    using True by (intro create_book_taken) (simp_all add: taken_def)
  have rows: "rows (db w') = rows (db w) @ [?book]"
    by (simp add: w'_def app_valid handle_def run world_simps)
  have "response = success"
    by (simp add: response_def app_valid handle_def run)
  moreover have "fst (app w' (GET_book (Parsed (next_id (db w))))) =
      result_response (jsonable_encoder_book (Some ?book))"
    if "within (parameter_max (engine (db w))) (next_id (db w))"
  proof -
    have "engine (db w') = engine (db w)"
      by (simp add: w'_def app_valid handle_def run world_simps)
    then have "select_by_id (db w') (next_id (db w)) = Inr (Some ?book)"
      using find_appended [OF fresh, of ?book] that
      by (intro select_present) (simp_all add: rows)
    then show ?thesis
      by (simp add: app_valid handle_def find_book_eq)
  qed
  ultimately show ?thesis
    using True fresh rows
    by (simp add: success_def result_response_def jsonable_encoder_book_def encode_book_def)
next
  case False
  then have run: "create_book w title pages =
     (Inl StatementRefused,
      if draws_before_refusal (engine (db w))
      then (Session w)\<lparr>db := (db w)\<lparr>next_id := next_id (db w) + 1\<rparr>\<rparr> else Session w)"
    by (intro create_book_refused) (simp add: taken_def)
  have "response = get_default_error_response 500 ''Internal Server Error''"
    by (simp add: response_def app_valid handle_def run)
  moreover have "rows (db w') = rows (db w)"
    by (simp add: w'_def app_valid handle_def run world_simps)
  ultimately show ?thesis
    using False by (simp add: get_default_error_response_def)
qed

theorem create_book_persists_witness:
  "wf_db (db shelf) \<and>
   fst (app shelf (POST_books (Some ''Dune'') (Some (Parsed 412)))) =
     \<lparr>status_code = 200,
      content = JObj [(''status_code'', JInt 200), (''message'', JStr ''success'')]\<rparr> \<and>
   fst (app (snd (app shelf (POST_books (Some ''Dune'') (Some (Parsed 412)))))
          (GET_book (Parsed 5))) =
     \<lparr>status_code = 200,
      content = JObj [(''status_code'', JInt 200),
        (''result'', JObj [(''book'',
           JObj [(''id'', JInt 5), (''title'', JStr ''Dune''), (''pages'', JInt 412),
                 (''created_at'', JStr ''2024-03-09'')])])]\<rparr> \<and>
   wf_db (db strict_shelf) \<and>
   fst (app strict_shelf (POST_books (Some ''Dune'') (Some (Parsed 2147483648)))) =
     \<lparr>status_code = 500,
      content = JObj [(''status_code'', JInt 500),
                      (''message'', JStr ''Internal Server Error'')]\<rparr> \<and>
   rows (db (snd (app strict_shelf (POST_books (Some ''Dune'') (Some (Parsed 2147483648)))))) =
     rows (db strict_shelf)"
proof -
  have h: "wf_db (db shelf)" and h': "wf_db (db strict_shelf)"
    by (simp_all add: wf_db_def shelf_def strict_shelf_def three_books_def)
  have d: "isoformat (today shelf) = ''2024-03-09''"
    by (simp add: shelf_def isoformat_def zfill_def digits.simps)
  have n: "next_id (db shelf) = 5" and e: "engine (db shelf) = sqlite"
    and e': "engine (db strict_shelf) = strict"
    by (simp_all add: shelf_def strict_shelf_def)
  show ?thesis
    using h h' create_book_persists [OF h, of "''Dune''" 412]
      create_book_persists [OF h', of "''Dune''" 2147483648]
    by (simp add: d n e e' sqlite_def strict_def within_def)
qed

text \<open>
  The claim as it was stated fails for a number of pages beyond what the engine stores:
  with \<open>2^63\<close> pages on an engine of 64-bit integers the answer is the 500 body and no
  row is added.
\<close>

theorem create_book_persists_counterexample:
  "fst (app shelf (POST_books (Some ''Dune'') (Some (Parsed 9223372036854775808)))) =
     \<lparr>status_code = 500,
      content = JObj [(''status_code'', JInt 500),
                      (''message'', JStr ''Internal Server Error'')]\<rparr> \<and>
   rows (db (snd (app shelf
     (POST_books (Some ''Dune'') (Some (Parsed 9223372036854775808)))))) = rows (db shelf)"
  by (simp add: shelf_def sqlite_def app_def validate_simps handle_def create_book_def
        commit_added_def Let_def within_def Session_def exception_handler_def
        get_default_error_response_def)

subsection \<open>Deleting a book\<close>

text \<open>
  C6: when a row has the identifier, \<open>DELETE /books\<close> answers with the success envelope
  and \<open>GET /books/{id}\<close> for the same identifier then answers with the success envelope
  whose result is \<open>{book: null}\<close>. The identifier of a row is one the engine has stored,
  so that its driver takes it as a value to compare with (\<open>stored_ids_app\<close>): this is
  the second hypothesis.
\<close>

theorem delete_then_find:
  assumes "id' \<in> book_id ` set (rows (db w))"
    and "within (parameter_max (engine (db w))) id'"
  shows "fst (app w (DELETE_books (Some (Parsed id')))) =
           \<lparr>status_code = 200,
            content = JObj [(''status_code'', JInt 200),
                            (''message'', JStr ''success'')]\<rparr> \<and>
         fst (app (snd (app w (DELETE_books (Some (Parsed id'))))) (GET_book (Parsed id'))) =
           \<lparr>status_code = 200,
            content = JObj [(''status_code'', JInt 200),
                            (''result'', JObj [(''book'', JNull)])]\<rparr>"
proof -
  let ?w' = "snd (app w (DELETE_books (Some (Parsed id'))))"
  from find_present [OF assms(1)] obtain b where
    f: "find (\<lambda>b. book_id b = id') (rows (db w)) = Some b" by blast
  have i: "book_id b = id'"
    by (rule find_Some_id [OF f])
  have run: "delete_book w id' =
      (Inr success, session_close (commit_deleted (Session w) b))"
    by (rule delete_present_eq [OF select_present [OF assms(2) f]])
  have "rows (db ?w') = filter (\<lambda>r. book_id r \<noteq> id') (rows (db w))"
    and "engine (db ?w') = engine (db w)"
    by (simp_all add: app_valid handle_def run world_simps i)
  then have "select_by_id (db ?w') id' = Inr None"
    using assms(2) by (simp add: select_by_id_def find_after_delete)
  then have "fst (app ?w' (GET_book (Parsed id'))) =
      result_response (jsonable_encoder_book None)"
    by (simp add: app_valid handle_def find_book_eq)
  moreover have "fst (app w (DELETE_books (Some (Parsed id')))) = success"
    by (simp add: app_valid handle_def run)
  ultimately show ?thesis
    by (simp add: success_def result_response_def jsonable_encoder_book_def)
qed

theorem delete_then_find_witness:
  "2 \<in> book_id ` set (rows (db shelf)) \<and>
   within (parameter_max (engine (db shelf))) 2 \<and>
   fst (app shelf (DELETE_books (Some (Parsed 2)))) =
     \<lparr>status_code = 200,
      content = JObj [(''status_code'', JInt 200), (''message'', JStr ''success'')]\<rparr> \<and>
   fst (app (snd (app shelf (DELETE_books (Some (Parsed 2))))) (GET_book (Parsed 2))) =
     \<lparr>status_code = 200,
      content = JObj [(''status_code'', JInt 200),
                      (''result'', JObj [(''book'', JNull)])]\<rparr>"
proof -
  have h: "2 \<in> book_id ` set (rows (db shelf))"
    by (simp add: shelf_def three_books_def)
  have p: "within (parameter_max (engine (db shelf))) 2"
    by (simp add: shelf_def sqlite_def within_def)
  show ?thesis
    using h p delete_then_find [OF h p] by simp
qed

text \<open>
  C7: when no row has the identifier, \<open>DELETE /books\<close> raises: \<open>session.delete\<close> is
  called on the \<open>None\<close> that the fetch returned (or the fetch itself raises, when the
  driver does not take the identifier). The answer is the 500 body and the table is
  unchanged.
\<close>

theorem delete_book_absent:
  assumes "id' \<notin> book_id ` set (rows (db w))"
  shows "fst (delete_book w id') =
           Inl (if within (parameter_max (engine (db w))) id' then UnmappedInstanceError
                else StatementRefused) \<and>
         fst (app w (DELETE_books (Some (Parsed id')))) =
           \<lparr>status_code = 500,
            content = JObj [(''status_code'', JInt 500),
                            (''message'', JStr ''Internal Server Error'')]\<rparr> \<and>
         db (snd (app w (DELETE_books (Some (Parsed id'))))) = db w"
proof (cases "within (parameter_max (engine (db w))) id'")
  case True
  then have "select_by_id (db w) id' = Inr None"
    by (simp add: select_absent [OF assms])
  then show ?thesis
    using True
    by (simp add: app_valid handle_def delete_missing_eq world_simps response_simps)
next
  case False
  then have "select_by_id (db w) id' = Inl StatementRefused"
    by (simp add: select_absent [OF assms])
  then show ?thesis
    using False
    by (simp add: app_valid handle_def delete_refused_eq world_simps response_simps)
qed

theorem delete_book_absent_witness:
  "3 \<notin> book_id ` set (rows (db shelf)) \<and>
   fst (delete_book shelf 3) = Inl UnmappedInstanceError \<and>
   fst (app shelf (DELETE_books (Some (Parsed 3)))) =
     \<lparr>status_code = 500,
      content = JObj [(''status_code'', JInt 500),
                      (''message'', JStr ''Internal Server Error'')]\<rparr> \<and>
   db (snd (app shelf (DELETE_books (Some (Parsed 3))))) = db shelf \<and>
   fst (delete_book shelf 9223372036854775808) = Inl StatementRefused \<and>
   fst (app shelf (DELETE_books (Some (Parsed 9223372036854775808)))) =
     \<lparr>status_code = 500,
      content = JObj [(''status_code'', JInt 500),
                      (''message'', JStr ''Internal Server Error'')]\<rparr>"
proof -
  have h: "3 \<notin> book_id ` set (rows (db shelf))"
    and h': "9223372036854775808 \<notin> book_id ` set (rows (db shelf))"
    by (simp_all add: shelf_def three_books_def)
  have p: "within (parameter_max (engine (db shelf))) 3"
    and p': "\<not> within (parameter_max (engine (db shelf))) 9223372036854775808"
    by (simp_all add: shelf_def sqlite_def within_def)
  show ?thesis
    using h p p' delete_book_absent [OF h] delete_book_absent [OF h'] by simp
qed

subsection \<open>The envelope\<close>

text \<open>
  C8, as the code has it: the answer to a request on books whose parameters validate is
  an envelope \<open>{status_code, message}\<close> or \<open>{status_code, result}\<close> whose \<open>status_code\<close>
  is the status of the response, and whenever the handler raises, whatever the
  exception, the answer is the fixed 500 body. A request whose parameters do not
  validate is not handed to a handler nor to \<open>exception_handler\<close>: the framework answers
  it with status 422 and a body \<open>{detail}\<close>, and the world is unchanged.
\<close>

theorem envelope_of_book_requests:
  "(validate request = Inr c \<and> c \<noteq> Root \<longrightarrow>
      is_envelope (content (fst (app w request))) \<and>
      (\<exists>rest. content (fst (app w request)) =
         JObj ((''status_code'', JInt (status_code (fst (app w request)))) # rest))) \<and>
   (validate request = Inr c \<and> fst (handle w c) = Inl e \<longrightarrow>
      fst (app w request) =
        \<lparr>status_code = 500,
         content = JObj [(''status_code'', JInt 500),
                         (''message'', JStr ''Internal Server Error'')]\<rparr>) \<and>
   (validate request = Inl errors \<longrightarrow>
      status_code (fst (app w request)) = 422 \<and>
      (\<exists>detail. content (fst (app w request)) = JObj [(''detail'', JList detail)]) \<and>
      snd (app w request) = w)"
proof -
  have raised: "fst (app w request) =
        \<lparr>status_code = 500,
         content = JObj [(''status_code'', JInt 500),
                         (''message'', JStr ''Internal Server Error'')]\<rparr>"
    if "validate request = Inr c \<and> fst (handle w c) = Inl e"
    using that by (simp add: app_valid get_default_error_response_def)
  have shape: "fst (app w request) = success \<or>
        fst (app w request) = get_default_error_response 500 ''Internal Server Error'' \<or>
        (\<exists>result. fst (app w request) = result_response result)"
    if v: "validate request = Inr c" and r: "c \<noteq> Root"
  proof (cases c)
    case Root
    with r show ?thesis by simp
  next
    case (Create_book title pages)
    then show ?thesis
      using create_book_outcome [of w title pages]
      by (auto simp add: app_valid [OF v] handle_def)
  next
    case (Find_book id')
    then show ?thesis
      using find_book_outcome [of w id'] by (auto simp add: app_valid [OF v] handle_def)
  next
    case (Get_books page_size page)
    then show ?thesis
      using get_books_outcome [of w page_size page]
      by (auto simp add: app_valid [OF v] handle_def)
  next
    case (Update_book id' title pages)
    then show ?thesis
      using update_book_outcome [of w id' title pages]
      by (auto simp add: app_valid [OF v] handle_def)
  next
    case (Delete_book id')
    then show ?thesis
      using delete_book_outcome [of w id']
      by (auto simp add: app_valid [OF v] handle_def)
  qed
  have envelope: "is_envelope (content (fst (app w request))) \<and>
      (\<exists>rest. content (fst (app w request)) =
         JObj ((''status_code'', JInt (status_code (fst (app w request)))) # rest))"
    if "validate request = Inr c \<and> c \<noteq> Root"
    using that shape
    by (auto simp add: success_def get_default_error_response_def result_response_def
          is_envelope_def)
  have invalid: "status_code (fst (app w request)) = 422 \<and>
      (\<exists>detail. content (fst (app w request)) = JObj [(''detail'', JList detail)]) \<and>
      snd (app w request) = w"
    if "validate request = Inl errors"
    using that by (simp add: app_invalid request_validation_exception_handler_def)
  show ?thesis
    using raised envelope invalid by blast
qed

theorem envelope_of_book_requests_witness:
  "validate (DELETE_books (Some (Parsed 3))) = Inr (Delete_book 3) \<and>
   fst (handle shelf (Delete_book 3)) = Inl UnmappedInstanceError \<and>
   is_envelope (content (fst (app shelf (DELETE_books (Some (Parsed 3)))))) \<and>
   fst (app shelf (DELETE_books (Some (Parsed 3)))) =
     \<lparr>status_code = 500,
      content = JObj [(''status_code'', JInt 500),
                      (''message'', JStr ''Internal Server Error'')]\<rparr> \<and>
   validate (DELETE_books (Some Ill_typed)) = Inl [(''query'', ''id'')] \<and>
   status_code (fst (app shelf (DELETE_books (Some Ill_typed)))) = 422 \<and>
   snd (app shelf (DELETE_books (Some Ill_typed))) = shelf"
proof -
  have v: "validate (DELETE_books (Some (Parsed 3))) = Inr (Delete_book 3)"
    by simp
  have h: "fst (handle shelf (Delete_book 3)) = Inl UnmappedInstanceError"
    by (simp add: handle_def delete_book_def Let_def query_get_def select_by_id_def
          session_delete_def Session_def shelf_def three_books_def sqlite_def within_def)
  have i: "validate (DELETE_books (Some Ill_typed)) = Inl [(''query'', ''id'')]"
    by (simp add: validate_simps)
  show ?thesis
    using v h i
      envelope_of_book_requests
        [of "DELETE_books (Some (Parsed 3))" "Delete_book 3" shelf UnmappedInstanceError]
      envelope_of_book_requests
        [of "DELETE_books (Some Ill_typed)" _ shelf _ "[(''query'', ''id'')]"]
    by blast
qed

text \<open>
  The claim as it was stated fails on a validation error: to \<open>POST /books\<close> with a title
  and no number of pages the answer has status 422 and a body that is neither an envelope
  nor the fixed 500 body.
\<close>

theorem envelope_counterexample:
  "status_code (fst (app shelf (POST_books (Some ''Dune'') None))) = 422 \<and>
   \<not> is_envelope (content (fst (app shelf (POST_books (Some ''Dune'') None)))) \<and>
   fst (app shelf (POST_books (Some ''Dune'') None)) \<noteq>
     \<lparr>status_code = 500,
      content = JObj [(''status_code'', JInt 500),
                      (''message'', JStr ''Internal Server Error'')]\<rparr>"
  by (simp add: app_def validate_simps request_validation_exception_handler_def
        is_envelope_def)

subsection \<open>Sessions\<close>

text \<open>
  C9, as the code has it: each of the five requests on books opens one session, and
  closes it when the handler returns a response; when the handler raises, the exception
  leaves it before \<open>session.close()\<close> and the session is not closed.
\<close>

theorem session_closed_on_return:
  assumes "validate request = Inr c" and "c \<noteq> Root"
  shows "sessions_opened (snd (app w request)) = sessions_opened w + 1 \<and>
         sessions_closed (snd (app w request)) =
           (case fst (handle w c) of
              Inr response \<Rightarrow> sessions_closed w + 1
            | Inl e \<Rightarrow> sessions_closed w)"
proof (cases c)
  case Root
  with assms show ?thesis by simp
next
  case (Create_book title pages)
  then show ?thesis
    by (cases "title_ok (engine (db w)) title \<and> within (pages_max (engine (db w))) pages \<and>
               within (id_max (engine (db w))) (next_id (db w))")
       (simp_all add: app_valid [OF assms(1)] handle_def create_book_taken
          create_book_refused world_simps)
next
  case (Find_book id')
  then show ?thesis
    by (simp add: app_valid [OF assms(1)] handle_def find_book_eq world_simps
          split: sum.splits)
next
  case (Get_books page_size page)
  then show ?thesis
    by (simp add: app_valid [OF assms(1)] handle_def get_books_eq Let_def world_simps
          split: sum.splits)
next
  case (Update_book id' title pages)
  show ?thesis
  proof (cases rule: select_cases [of "db w" id'])
    case refused
    then show ?thesis
      by (simp add: Update_book app_valid [OF assms(1)] handle_def update_refused_eq
            world_simps)
  next
    case missing
    then show ?thesis
      by (simp add: Update_book app_valid [OF assms(1)] handle_def update_missing_eq
            world_simps)
  next
    case (present b)
    let ?b' = "b\<lparr>book_title := (case title of None \<Rightarrow> book_title b | Some t \<Rightarrow> t),
                 book_pages := (case pages of None \<Rightarrow> book_pages b | Some p \<Rightarrow> p)\<rparr>"
    from commit_dirty_outcome [of "Session w" b ?b'] show ?thesis
      by (auto simp add: Update_book app_valid [OF assms(1)] handle_def
            update_present_eq [OF present(2)] world_simps)
  qed
next
  case (Delete_book id')
  show ?thesis
  proof (cases rule: select_cases [of "db w" id'])
    case refused
    then show ?thesis
      by (simp add: Delete_book app_valid [OF assms(1)] handle_def delete_refused_eq
            world_simps)
  next
    case missing
    then show ?thesis
      by (simp add: Delete_book app_valid [OF assms(1)] handle_def delete_missing_eq
            world_simps)
  next
    case (present b)
    then show ?thesis
      by (simp add: Delete_book app_valid [OF assms(1)] handle_def delete_present_eq
            world_simps)
  qed
qed

theorem session_closed_on_return_witness:
  "validate (GET_book (Parsed 1)) = Inr (Find_book 1) \<and> Find_book 1 \<noteq> Root \<and>
   sessions_opened (snd (app shelf (GET_book (Parsed 1)))) = sessions_opened shelf + 1 \<and>
   sessions_closed (snd (app shelf (GET_book (Parsed 1)))) = sessions_closed shelf + 1"
proof -
  have v: "validate (GET_book (Parsed 1)) = Inr (Find_book 1)"
    by simp
  have h: "Find_book 1 \<noteq> Root"
    by simp
  have p: "within (parameter_max (engine (db shelf))) 1"
    by (simp add: shelf_def sqlite_def within_def)
  show ?thesis
    using v h session_closed_on_return [OF v h, of shelf]
    by (simp add: handle_def find_book_eq select_by_id_def p)
qed

text \<open>
  The claim as it was stated fails on a path that raises: updating the title of a book
  that does not exist leaves the session it opened unclosed.
\<close>

theorem session_closed_counterexample:
  "fst (handle empty_world (Update_book 1 (Some ''Dune'') None)) = Inl AttributeError \<and>
   sessions_opened (snd (app empty_world (PUT_books (Some (Parsed 1)) (Some ''Dune'') None))) =
     1 \<and>
   sessions_closed (snd (app empty_world (PUT_books (Some (Parsed 1)) (Some ''Dune'') None))) =
     0"
  by (simp add: empty_world_def sqlite_def app_def validate_simps handle_def
        update_book_def Let_def query_get_def select_by_id_def within_def set_title_def
        Session_def)

subsection \<open>A page size of zero\<close>

text \<open>
  C10: for every table and every page, given or left to its default, \<open>GET /books\<close> with
  \<open>page_size = 0\<close> answers with the success envelope whose result is the empty list of
  books: 0 is not replaced by 100, and the offset is 0.
\<close>

theorem get_books_limit_zero:
  "fst (app w (GET_books (Some (Parsed 0)) (map_option Parsed page))) =
     \<lparr>status_code = 200,
      content = JObj [(''status_code'', JInt 200),
                      (''result'', JObj [(''books'', JList [])])]\<rparr>"
  using validate_GET_books [of "Some 0" page]
  by (simp add: app_valid handle_def get_books_eq query_limit_offset_all_def within_zero
        result_response_def jsonable_encoder_books_def)

theorem get_books_limit_zero_witness:
  "fst (app shelf (GET_books (Some (Parsed 0)) (Some (Parsed 7)))) =
     \<lparr>status_code = 200,
      content = JObj [(''status_code'', JInt 200),
                      (''result'', JObj [(''books'', JList [])])]\<rparr>"
  using get_books_limit_zero [of shelf "Some 7"] by simp

end
